theory Spec2Isabelle
  imports Complex_Main
begin

section \<open>Distance decay functions (notebook on kernel and distance functions)\<close>

text \<open>
  The notebook evaluates every distance decay function on the grid
  \<^verbatim>\<open>z = np.linspace(0.0,1.0,num=21)\<close> with numpy's element-wise
  arithmetic. Each cell is modelled by the function it applies to one element and by
  the array it assigns. Floats are idealised as real numbers: rounding and overflow
  are outside the model.
\<close>

definition z :: "real list" where
  "z = map (\<lambda>k. real k / 20) [0..<21]"

text \<open>\<^verbatim>\<open>tri = 1.0 - z\<close>\<close>

definition triangular :: "real \<Rightarrow> real" where
  "triangular x = 1.0 - x"

definition tri :: "real list" where
  "tri = map triangular z"

text \<open>\<^verbatim>\<open>z2 = z**2\<close> and \<^verbatim>\<open>epa = 1.0 - z2\<close>\<close>

definition z2 :: "real list" where
  "z2 = map (\<lambda>x. x ^ 2) z"

definition epanechnikov :: "real \<Rightarrow> real" where
  "epanechnikov x = 1.0 - x ^ 2"

definition epa :: "real list" where
  "epa = map (\<lambda>x2. 1.0 - x2) z2"

text \<open>\<^verbatim>\<open>quar = (1.0 - z2) ** 2\<close>\<close>

definition quartic :: "real \<Rightarrow> real" where
  "quartic x = (1.0 - x ^ 2) ^ 2"

definition quar :: "real list" where
  "quar = map (\<lambda>x2. (1.0 - x2) ^ 2) z2"

text \<open>\<^verbatim>\<open>zz = -z2 / 2.0\<close> and \<^verbatim>\<open>gs = np.exp(zz)\<close>\<close>

definition gaussian :: "real \<Rightarrow> real" where
  "gaussian x = exp (- (x ^ 2) / 2.0)"

definition gs :: "real list" where
  "gs = map (\<lambda>x2. exp (- x2 / 2.0)) z2"

subsection \<open>Negative exponential and inverse distance power functions\<close>

text \<open>
  A Python expression either raises or yields a value, and a numpy float is finite,
  infinite or not a number. The two parametric transforms are given this full result
  type, because the specification speaks of their errors and of the value of
  \<^verbatim>\<open>0.0 ** 0.0\<close>.
\<close>

datatype error = Exception string | KeyError string | ValueError | TypeError | IndexError

datatype npfloat = Fin real | PosInf | NaN

text \<open>\<^verbatim>\<open>a = [0.0, 0.5, 1.0, 2.0, 6.0]\<close>, the parameter values of both loops.\<close>

definition a :: "real list" where
  "a = [0.0, 0.5, 1.0, 2.0, 6.0]"

text \<open>
  The body of the first loop, for the element \<open>x\<close> of \<^verbatim>\<open>z\<close> and the
  loop variable \<open>i\<close>: \<^verbatim>\<open>za = - i * z\<close>, \<^verbatim>\<open>expon = np.exp(za)\<close>.
  Nothing in the cell tests the sign of \<open>i\<close> and nothing raises.
\<close>

definition exponential_transform :: "real \<Rightarrow> real \<Rightarrow> error + npfloat" where
  "exponential_transform x i = Inr (Fin (exp (- i * x)))"

text \<open>
  numpy's \<^verbatim>\<open>**\<close> on floats follows C's \<^verbatim>\<open>pow\<close>: any base to the
  power zero is one, zero to a positive power is zero, zero to a negative power is
  infinite, and a negative base has a power only for a whole exponent.
\<close>

definition float_power :: "real \<Rightarrow> real \<Rightarrow> npfloat" where
  "float_power x y =
     (if y = 0 then Fin 1
      else if 0 < x then Fin (x powr y)
      else if x = 0 then (if 0 < y then Fin 0 else PosInf)
      else if of_int \<lfloor>y\<rfloor> = y
        then Fin (if 0 < y then x ^ nat \<lfloor>y\<rfloor> else 1 / x ^ nat \<lfloor>- y\<rfloor>)
      else NaN)"

text \<open>
  The second loop: \<^verbatim>\<open>zz = 1.0 - z\<close> before it, \<^verbatim>\<open>za = zz**i\<close> in its body.
\<close>

definition power_transform :: "real \<Rightarrow> real \<Rightarrow> error + npfloat" where
  "power_transform x i = Inr (float_power (1.0 - x) i)"

text \<open>
  A list of expressions is evaluated from left to right, and the first one that raises
  ends the evaluation.
\<close>

fun collect :: "(error + 'a) list \<Rightarrow> error + 'a list" where
  "collect [] = Inr []"
| "collect (Inl e # rs) = Inl e"
| "collect (Inr x # rs) = (case collect rs of Inl e \<Rightarrow> Inl e | Inr xs \<Rightarrow> Inr (x # xs))"

text \<open>
  \<^verbatim>\<open>p5\<close> and \<^verbatim>\<open>p6\<close> start as the column \<^verbatim>\<open>z\<close>, and each pass of the
  loop stacks one more column to the right with \<^verbatim>\<open>np.hstack\<close>. They are kept
  as lists of columns.
\<close>

definition p5 :: "error + npfloat list list" where
  "p5 =
     (case collect (map (\<lambda>i. collect (map (\<lambda>x. exponential_transform x i) z)) a) of
        Inl e \<Rightarrow> Inl e
      | Inr columns \<Rightarrow> Inr (map Fin z # columns))"

definition p6 :: "error + npfloat list list" where
  "p6 =
     (case collect (map (\<lambda>i. collect (map (\<lambda>x. power_transform x i) z)) a) of
        Inl e \<Rightarrow> Inl e
      | Inr columns \<Rightarrow> Inr (map Fin z # columns))"

section \<open>Helper functions of the multiplier notebook\<close>

subsection \<open>Data frames, references and output\<close>

text \<open>
  A cell of a data frame is a number, a geometry object or missing (\<^verbatim>\<open>NaN\<close>);
  text columns are not modelled. A frame is column oriented, as pandas is: a row count
  and the named columns in order. Every frame of the notebook has the default
  \<^verbatim>\<open>RangeIndex\<close>, so an index label is a row position.
\<close>

datatype cell = Num real | Geom string | Missing

record frame =
  nrows :: nat
  cols :: "(string \<times> cell list) list"

text \<open>
  The frames are Python objects that the functions receive by reference. The world
  holds the object store, the next unused reference, and what has been printed and
  shown so far.
\<close>

type_synonym ref = nat

text \<open>
  A printed line keeps the pieces of its f-string: literal text, a value under the
  format \<^verbatim>\<open>:0.3f\<close>, and an integer.
\<close>

datatype piece = Lit string | Float3 cell | Integer int

text \<open>
  A figure keeps the frame it was drawn from, the keyword arguments of the call to
  \<^verbatim>\<open>plot\<close>, its title and whether its axes are drawn.
\<close>

record figure =
  fig_data :: frame
  fig_column :: string
  fig_scheme :: string
  fig_k :: nat
  fig_cmap :: string
  fig_edgecolor :: string
  fig_linewidth :: real
  fig_figsize :: "nat \<times> nat"
  fig_legend :: bool
  fig_legend_loc :: string
  fig_legend_anchor :: "real \<times> real"
  fig_legend_title :: string
  fig_title :: string
  fig_axis :: bool

datatype event = Print "piece list" | Show figure

record world =
  heap :: "ref \<Rightarrow> frame"
  next_ref :: ref
  out :: "event list"

subsection \<open>The pandas operations that \<^verbatim>\<open>nbreffect\<close> calls\<close>

text \<open>\<^verbatim>\<open>df[[name]]\<close>: every column of that name, or \<^verbatim>\<open>KeyError\<close>.\<close>

definition getitem :: "frame \<Rightarrow> string \<Rightarrow> error + frame" where
  "getitem df name =
     (if name \<in> set (map fst (cols df))
      then Inr (df\<lparr>cols := filter (\<lambda>c. fst c = name) (cols df)\<rparr>)
      else Inl (KeyError name))"

text \<open>
  The position of the first extreme value of one column, missing values skipped.
  pandas raises \<^verbatim>\<open>TypeError\<close> on a column of objects; on an empty column
  it raises \<^verbatim>\<open>ValueError\<close>, and on a column of missing values only the
  conversion of the answer to \<^verbatim>\<open>int\<close> does.
\<close>

fun is_geom :: "cell \<Rightarrow> bool" where
  "is_geom (Geom t) = True"
| "is_geom c = False"

definition numbered :: "cell list \<Rightarrow> (nat \<times> real) list" where
  "numbered cs = concat (map (\<lambda>(i, c). case c of Num r \<Rightarrow> [(i, r)] | _ \<Rightarrow> []) (enumerate 0 cs))"

definition first_extreme :: "(real \<Rightarrow> real \<Rightarrow> bool) \<Rightarrow> cell list \<Rightarrow> error + nat" where
  "first_extreme better cs =
     (if list_ex is_geom cs then Inl TypeError
      else case numbered cs of
        [] \<Rightarrow> Inl ValueError
      | p # ps \<Rightarrow> Inr (fst (foldl (\<lambda>b q. if better (snd q) (snd b) then q else b) p ps)))"

text \<open>\<^verbatim>\<open>df.idxmax()\<close> and \<^verbatim>\<open>df.idxmin()\<close>: one label for each column.\<close>

definition idxmax :: "frame \<Rightarrow> error + nat list" where
  "idxmax df = collect (map (\<lambda>c. first_extreme (\<lambda>x y. y < x) (snd c)) (cols df))"

definition idxmin :: "frame \<Rightarrow> error + nat list" where
  "idxmin df = collect (map (\<lambda>c. first_extreme (\<lambda>x y. x < y) (snd c)) (cols df))"

text \<open>\<^verbatim>\<open>int(series)\<close> converts a series of exactly one element.\<close>

definition int_series :: "'a list \<Rightarrow> error + 'a" where
  "int_series xs = (case xs of [x] \<Rightarrow> Inr x | _ \<Rightarrow> Inl TypeError)"

text \<open>\<^verbatim>\<open>int(x)\<close> on a cell: a float is truncated towards zero.\<close>

definition int_cell :: "cell \<Rightarrow> error + int" where
  "int_cell c =
     (case c of
        Num r \<Rightarrow> Inr (if 0 \<le> r then \<lfloor>r\<rfloor> else \<lceil>r\<rceil>)
      | Geom t \<Rightarrow> Inl TypeError
      | Missing \<Rightarrow> Inl ValueError)"

text \<open>\<^verbatim>\<open>df.iloc[i, j]\<close> and \<^verbatim>\<open>df.iloc[i]\<close>, by position.\<close>

definition iloc :: "frame \<Rightarrow> nat \<Rightarrow> nat \<Rightarrow> error + cell" where
  "iloc df i j =
     (if i < nrows df \<and> j < length (cols df) \<and> i < length (snd (cols df ! j))
      then Inr (snd (cols df ! j) ! i)
      else Inl IndexError)"

definition iloc_row :: "frame \<Rightarrow> nat \<Rightarrow> error + cell list" where
  "iloc_row df i =
     (if i < nrows df \<and> list_all (\<lambda>c. i < length (snd c)) (cols df)
      then Inr (map (\<lambda>c. snd c ! i) (cols df))
      else Inl IndexError)"

text \<open>
  \<^verbatim>\<open>pd.concat([left, right], axis=1)\<close> builds a new frame: the columns of both
  in order, over the union of the two indexes, with missing values where a frame has
  no such row.
\<close>

definition pad :: "nat \<Rightarrow> string \<times> cell list \<Rightarrow> string \<times> cell list" where
  "pad n c = (fst c, snd c @ replicate (n - length (snd c)) Missing)"

definition concat_columns :: "frame \<Rightarrow> frame \<Rightarrow> frame" where
  "concat_columns left right =
     (let n = max (nrows left) (nrows right)
      in \<lparr>nrows = n, cols = map (pad n) (cols left) @ map (pad n) (cols right)\<rparr>)"

definition alloc :: "frame \<Rightarrow> world \<Rightarrow> ref \<times> world" where
  "alloc df w = (next_ref w, w\<lparr>heap := (heap w)(next_ref w := df), next_ref := Suc (next_ref w)\<rparr>)"

subsection \<open>\<^verbatim>\<open>multmap\<close> and \<^verbatim>\<open>nbreffect\<close>\<close>

text \<open>
  \<^verbatim>\<open>multmap(dfm,column='EonNbrs',model='slx')\<close> reads the frame behind
  \<open>dfm\<close>, asks for the quantile map of one column, which must be there, sets the
  title, switches the axes off and shows the figure. How the map is drawn is the
  plotting library's business.
\<close>

definition multmap :: "ref \<Rightarrow> string \<Rightarrow> string \<Rightarrow> world \<Rightarrow> (error + unit) \<times> world" where
  "multmap dfm column model w =
     (if column \<notin> set (map fst (cols (heap w dfm))) then (Inl (KeyError column), w)
      else
        let ax = \<lparr>fig_data = heap w dfm, fig_column = column, fig_scheme = ''Quantiles'',
                  fig_k = 5, fig_cmap = ''YlOrRd'', fig_edgecolor = ''Black'',
                  fig_linewidth = 0.2, fig_figsize = (6, 6), fig_legend = True,
                  fig_legend_loc = ''center left'', fig_legend_anchor = (1, 0.5),
                  fig_legend_title = column, fig_title = [], fig_axis = True\<rparr>;
            newtitle = ''Spatial Multipliers for '' @ model;
            ax = ax\<lparr>fig_title := newtitle\<rparr>;
            ax = ax\<lparr>fig_axis := False\<rparr>
        in (Inr (), w\<lparr>out := out w @ [Show ax]\<rparr>))"

text \<open>The \<^verbatim>\<open>if\<close>/\<^verbatim>\<open>elif\<close> chain that sets \<^verbatim>\<open>coli\<close>.\<close>

definition coli :: "string \<Rightarrow> error + nat" where
  "coli mult =
     (if mult = ''Direct'' then Inr 1
      else if mult = ''EofNbrs'' then Inr 2
      else if mult = ''EonNbrs'' then Inr 3
      else Inl (Exception ''Invalid column''))"

text \<open>
  One report line, for instance
  \<^verbatim>\<open>f"The maximum is {dfm.iloc[imax,coli]:0.3f} with id {int(oid.iloc[imax])}"\<close>:
  the two expressions are evaluated from left to right.
\<close>

definition report :: "string \<Rightarrow> frame \<Rightarrow> frame \<Rightarrow> nat \<Rightarrow> nat \<Rightarrow> error + piece list" where
  "report text dfm oid i j =
     (case iloc dfm i j of Inl e \<Rightarrow> Inl e
      | Inr (Geom t) \<Rightarrow> Inl TypeError
      | Inr v \<Rightarrow>
         (case iloc_row oid i of Inl e \<Rightarrow> Inl e
          | Inr r \<Rightarrow>
             (case int_series r of Inl e \<Rightarrow> Inl e
              | Inr c \<Rightarrow>
                 (case int_cell c of Inl e \<Rightarrow> Inl e
                  | Inr n \<Rightarrow> Inr [Lit text, Float3 v, Lit '' with id '', Integer n]))))"

text \<open>
  \<^verbatim>\<open>int(dfm[[mult]].idxmax())\<close> and its twin with \<^verbatim>\<open>idxmin\<close>.
\<close>

definition extreme_row :: "(frame \<Rightarrow> error + nat list) \<Rightarrow> frame \<Rightarrow> string \<Rightarrow> error + nat" where
  "extreme_row idx dfm mult =
     (case getitem dfm mult of Inl e \<Rightarrow> Inl e
      | Inr sub \<Rightarrow> (case idx sub of Inl e \<Rightarrow> Inl e | Inr labels \<Rightarrow> int_series labels))"

definition nbreffect ::
  "ref \<Rightarrow> ref \<Rightarrow> ref \<Rightarrow> string \<Rightarrow> string \<Rightarrow> world \<Rightarrow> (error + unit) \<times> world" where
  "nbreffect dfs dfm oid mult model w =
     (case coli mult of Inl e \<Rightarrow> (Inl e, w)
      | Inr j \<Rightarrow>
     (case extreme_row idxmax (heap w dfm) mult of Inl e \<Rightarrow> (Inl e, w)
      | Inr imax \<Rightarrow>
     (case report ''The maximum is '' (heap w dfm) (heap w oid) imax j of Inl e \<Rightarrow> (Inl e, w)
      | Inr line1 \<Rightarrow>
     (let w1 = w\<lparr>out := out w @ [Print line1]\<rparr> in
     (case extreme_row idxmin (heap w1 dfm) mult of Inl e \<Rightarrow> (Inl e, w1)
      | Inr imin \<Rightarrow>
     (case report ''The minimum is '' (heap w1 dfm) (heap w1 oid) imin j of Inl e \<Rightarrow> (Inl e, w1)
      | Inr line2 \<Rightarrow>
     (let w2 = w1\<lparr>out := out w1 @ [Print line2]\<rparr>;
          (dfmap, w3) = alloc (concat_columns (heap w2 dfs) (heap w2 dfm)) w2
      in multmap dfmap mult model w3)))))))"

section \<open>The spatial multiplier calculator\<close>

text \<open>
  The notebook imports \<^verbatim>\<open>i_multipliers\<close> from \<^verbatim>\<open>spreg.sputils\<close> and only
  calls it, as \<^verbatim>\<open>i_multipliers(wq,coef=0.5,model='lag',id=fipsid)\<close>; its body is
  not among the sources. This section models it from the specification. A weights
  matrix is a dense list of rows of real numbers.
\<close>

type_synonym matrix = "real list list"

text \<open>
  Modelled from the spec: the error kinds of the calculator, which is missing from the
  sources.
\<close>

datatype calc_error = DimensionMismatch | UnsupportedModel | MatrixSingularity

text \<open>
  Modelled from the spec: a weights matrix of \<open>n\<close> units is square, \<open>n\<close> rows
  of \<open>n\<close> entries.
\<close>

definition is_square :: "matrix \<Rightarrow> bool" where
  "is_square W = list_all (\<lambda>r. length r = length W) W"

text \<open>
  Modelled from the spec: the identity matrix and the matrix product, in which the
  contract of the missing inversion routine is stated.
\<close>

definition identity :: "nat \<Rightarrow> matrix" where
  "identity n = map (\<lambda>i. map (\<lambda>j. if i = j then 1 else 0) [0..<n]) [0..<n]"

definition mat_mul :: "matrix \<Rightarrow> matrix \<Rightarrow> matrix" where
  "mat_mul A B =
     map (\<lambda>i. map (\<lambda>j. \<Sum>k\<leftarrow>[0..<length A]. A ! i ! k * B ! k ! j) [0..<length A])
       [0..<length A]"

text \<open>
  Modelled from the spec: a matrix is row-standardised when each row sums to one, and
  it has no self-weights when its diagonal is zero.
\<close>

definition rows_sum_to_one :: "matrix \<Rightarrow> bool" where
  "rows_sum_to_one W = list_all (\<lambda>r. sum_list r = 1) W"

definition zero_diagonal :: "matrix \<Rightarrow> bool" where
  "zero_diagonal W = list_all (\<lambda>i. W ! i ! i = 0) [0..<length W]"

text \<open>
  Modelled from the spec: the matrix \<open>I - coef W\<close> whose inverse is the multiplier
  matrix of the lag model.
\<close>

definition lag_system :: "matrix \<Rightarrow> real \<Rightarrow> matrix" where
  "lag_system W coef =
     map (\<lambda>i. map (\<lambda>j. (if i = j then 1 else 0) - coef * W ! i ! j) [0..<length W])
       [0..<length W]"

text \<open>
  Modelled from the spec: matrix inversion is an external numerical collaborator that
  returns the inverse or fails. It is the parameter \<open>invert\<close> of the calculator,
  and \<open>inverse_contract\<close> is its contract at one matrix: what it returns there is a
  square matrix of the same size and a two-sided inverse.
\<close>

definition is_inverse_of :: "matrix \<Rightarrow> matrix \<Rightarrow> bool" where
  "is_inverse_of A M \<longleftrightarrow>
     length M = length A \<and> is_square M \<and>
     mat_mul M A = identity (length A) \<and> mat_mul A M = identity (length A)"

definition inverse_contract :: "(matrix \<Rightarrow> matrix option) \<Rightarrow> matrix \<Rightarrow> bool" where
  "inverse_contract invert A = (case invert A of None \<Rightarrow> True | Some M \<Rightarrow> is_inverse_of A M)"

text \<open>
  Modelled from the spec: the multiplier matrix of each model. For \<^verbatim>\<open>slx\<close> and
  \<^verbatim>\<open>kernel\<close> it is the weights matrix as supplied (the diagonal of kernel
  weights is set where the weights are built). For \<^verbatim>\<open>lag\<close> it is the inverse
  of \<open>I - coef W\<close>, or \<open>MatrixSingularity\<close>. For \<^verbatim>\<open>exponential\<close> and
  \<^verbatim>\<open>power\<close> the matrix holds distance fractions, above zero and at most one,
  in its stored (non-zero) entries; each is replaced by \<open>exp (- coef x)\<close> or by
  \<open>(1 - x)\<close> to the power \<open>coef\<close>, the power zero giving one and the fraction
  one giving zero. Entries that are not stored stay zero.
\<close>

definition multiplier_matrix ::
  "(matrix \<Rightarrow> matrix option) \<Rightarrow> matrix \<Rightarrow> real \<Rightarrow> string \<Rightarrow> calc_error + matrix" where
  "multiplier_matrix invert W coef model =
     (if model = ''slx'' \<or> model = ''kernel'' then Inr W
      else if model = ''lag'' then
        (case invert (lag_system W coef) of
           None \<Rightarrow> Inl MatrixSingularity
         | Some M \<Rightarrow> Inr M)
      else if model = ''exponential'' then
        Inr (map (map (\<lambda>x. if x = 0 then 0 else exp (- coef * x))) W)
      else if model = ''power'' then
        Inr (map (map (\<lambda>x. if x = 0 then 0 else if coef = 0 then 1
                             else if x < 1 then (1 - x) powr coef else 0)) W)
      else Inl UnsupportedModel)"

text \<open>
  Modelled from the spec: the direct effect of unit \<open>i\<close> is the diagonal entry of
  the multiplier matrix.
\<close>

definition Direct :: "matrix \<Rightarrow> real list" where
  "Direct M = map (\<lambda>i. M ! i ! i) [0..<length M]"

text \<open>
  Modelled from the spec: the sums of the rows and of the columns of a matrix, either
  whole or without the diagonal entry.
\<close>

definition row_sums :: "bool \<Rightarrow> matrix \<Rightarrow> real list" where
  "row_sums whole M =
     map (\<lambda>i. \<Sum>j\<leftarrow>[0..<length M]. if j = i \<and> \<not> whole then 0 else M ! i ! j) [0..<length M]"

definition col_sums :: "bool \<Rightarrow> matrix \<Rightarrow> real list" where
  "col_sums whole M =
     map (\<lambda>i. \<Sum>j\<leftarrow>[0..<length M]. if j = i \<and> \<not> whole then 0 else M ! j ! i) [0..<length M]"

text \<open>
  Modelled from the spec: the effect of the neighbours of unit \<open>i\<close> is the sum of
  row \<open>i\<close> and its effect on the neighbours is the sum of column \<open>i\<close>. Whether
  the diagonal is in the sum depends on the model. For \<^verbatim>\<open>slx\<close> the whole row
  and the whole column are summed, so that a row-standardised matrix has the mean one
  by construction; for the other models the diagonal entry, which is the direct
  effect, is left out.
\<close>

definition EofNbrs :: "string \<Rightarrow> matrix \<Rightarrow> real list" where
  "EofNbrs model M = row_sums (model = ''slx'') M"

definition EonNbrs :: "string \<Rightarrow> matrix \<Rightarrow> real list" where
  "EonNbrs model M = col_sums (model = ''slx'') M"

text \<open>
  Modelled from the spec: the result is a table with the columns
  \<^verbatim>\<open>[id, Direct, EofNbrs, EonNbrs]\<close>, one row for each unit in the order of the
  identifiers.
\<close>

definition multiplier_columns :: "string list" where
  "multiplier_columns = [''id'', ''Direct'', ''EofNbrs'', ''EonNbrs'']"

definition multiplier_table :: "string \<Rightarrow> cell list \<Rightarrow> matrix \<Rightarrow> frame" where
  "multiplier_table model ids M =
     \<lparr>nrows = length M,
      cols = zip multiplier_columns
               [ids, map Num (Direct M), map Num (EofNbrs model M),
                map Num (EonNbrs model M)]\<rparr>"

text \<open>
  Modelled from the spec: the calculator. The two dimension checks come before
  anything is computed; then the multiplier matrix is built, which may fail, and the
  table is returned whole.
\<close>

definition i_multipliers ::
  "(matrix \<Rightarrow> matrix option) \<Rightarrow> matrix \<Rightarrow> real \<Rightarrow> string \<Rightarrow> cell list \<Rightarrow> calc_error + frame" where
  "i_multipliers invert W coef model ids =
     (if \<not> is_square W then Inl DimensionMismatch
      else if length ids \<noteq> length W then Inl DimensionMismatch
      else case multiplier_matrix invert W coef model of
             Inl e \<Rightarrow> Inl e
           | Inr M \<Rightarrow> Inr (multiplier_table model ids M))"

subsection \<open>Reading a column: mean and ranks\<close>

text \<open>
  The mean of a named column as \<^verbatim>\<open>describe()\<close> reports it in the notebook:
  over the numbers of the column, and undefined when there are none.
\<close>

definition numbers :: "cell list \<Rightarrow> real list" where
  "numbers cs = concat (map (\<lambda>c. case c of Num r \<Rightarrow> [r] | _ \<Rightarrow> []) cs)"

definition mean :: "real list \<Rightarrow> real option" where
  "mean xs = (if xs = [] then None else Some (sum_list xs / real (length xs)))"

definition column_mean :: "frame \<Rightarrow> string \<Rightarrow> real option" where
  "column_mean df name =
     (case map_of (cols df) name of None \<Rightarrow> None | Some cs \<Rightarrow> mean (numbers cs))"

definition column_numbers :: "frame \<Rightarrow> string \<Rightarrow> real list" where
  "column_numbers df name =
     (case map_of (cols df) name of None \<Rightarrow> [] | Some cs \<Rightarrow> numbers cs)"

text \<open>
  Modelled from the spec: the test of the rank order, which the sources do not hold.
  Spearman's rank correlation is Pearson's correlation of the ranks, a tie taking the
  average of the ranks it covers. The correlation \<open>sxy / sqrt (sxx * syy)\<close> is one
  exactly when \<open>sxy\<close> is positive and \<open>sxy\<^sup>2 = sxx * syy\<close>.
\<close>

definition rank_in :: "real list \<Rightarrow> real \<Rightarrow> real" where
  "rank_in xs x =
     real (length (filter (\<lambda>y. y < x) xs)) + (real (length (filter (\<lambda>y. y = x) xs)) + 1) / 2"

definition ranks :: "real list \<Rightarrow> real list" where
  "ranks xs = map (rank_in xs) xs"

definition centred :: "real list \<Rightarrow> real list" where
  "centred xs = map (\<lambda>x. x - sum_list xs / real (length xs)) xs"

definition pearson_is_one :: "real list \<Rightarrow> real list \<Rightarrow> bool" where
  "pearson_is_one xs ys \<longleftrightarrow>
     length xs = length ys \<and>
     (let sxy = (\<Sum>(u, v)\<leftarrow>zip (centred xs) (centred ys). u * v);
          sxx = (\<Sum>u\<leftarrow>centred xs. u * u);
          syy = (\<Sum>v\<leftarrow>centred ys. v * v)
      in 0 < sxy \<and> sxy * sxy = sxx * syy)"

definition spearman_is_one :: "real list \<Rightarrow> real list \<Rightarrow> bool" where
  "spearman_is_one xs ys = pearson_is_one (ranks xs) (ranks ys)"

text \<open>
  Two lists of values, one for each unit, order the units the same way when no two
  units are in one order by the first list and in the opposite order by the second.
\<close>

definition same_order :: "real list \<Rightarrow> real list \<Rightarrow> bool" where
  "same_order xs ys \<longleftrightarrow>
     length xs = length ys \<and>
     list_all (\<lambda>j. list_all (\<lambda>k. (xs ! j \<le> xs ! k \<and> ys ! j \<le> ys ! k)
                                 \<or> (xs ! k \<le> xs ! j \<and> ys ! k \<le> ys ! j))
                        [0..<length xs])
       [0..<length xs]"

section \<open>Example inputs\<close>

text \<open>
  Three units on a line with binary contiguity weights, not row-standardised, and the
  inverse of \<open>I - W / 2\<close>.
\<close>

definition line3 :: matrix where
  "line3 = [[0, 1, 0], [1, 0, 1], [0, 1, 0]]"

definition line3_inverse :: matrix where
  "line3_inverse = [[3/2, 1, 1/2], [1, 2, 1], [1/2, 1, 3/2]]"

definition line3_invert :: "matrix \<Rightarrow> matrix option" where
  "line3_invert = map_of [(lag_system line3 (1/2), line3_inverse)]"

definition ids3 :: "cell list" where
  "ids3 = [Num 1, Num 2, Num 3]"

text \<open>
  Two units that are each other's only neighbour, row-standardised, and the inverse of
  \<open>I - W / 2\<close>.
\<close>

definition pair2 :: matrix where
  "pair2 = [[0, 1], [1, 0]]"

definition pair2_inverse :: matrix where
  "pair2_inverse = [[4/3, 2/3], [2/3, 4/3]]"

definition pair2_invert :: "matrix \<Rightarrow> matrix option" where
  "pair2_invert = map_of [(lag_system pair2 (1/2), pair2_inverse)]"

definition ids2 :: "cell list" where
  "ids2 = [Num 1, Num 2]"

text \<open>
  Four units with row-standardised nearest neighbour weights and a zero diagonal: unit
  0 has neighbour 3, units 1 and 2 have each other and 3, unit 3 has neighbour 2. The
  inverses of \<open>I - coef W\<close> for the coefficients 0.3 and 0.5 follow.
\<close>

definition knn4 :: matrix where
  "knn4 = [[0, 0, 0, 1], [0, 0, 1/2, 1/2], [0, 1/2, 0, 1/2], [0, 0, 1, 0]]"




definition ids4 :: "cell list" where
  "ids4 = [Num 1, Num 2, Num 3, Num 4]"





text \<open>
  Distance fractions for the exponential model on three units: unit 1 has unit 0 at
  half its bandwidth and unit 2 at its bandwidth, units 0 and 2 have unit 1 at their
  bandwidth.
\<close>

definition fractions3 :: matrix where
  "fractions3 = [[0, 1, 0], [1/2, 0, 1], [0, 1, 0]]"

text \<open>Distance fractions for the power model on four units.\<close>

definition fractions4 :: matrix where
  "fractions4 = [[0, 1/2, 0, 0], [9/10, 0, 0, 0], [0, 1/2, 0, 0], [0, 0, 1/10, 0]]"

text \<open>
  The ring of four units of the specification, each unit joined to both neighbours
  with weight one half, and a row-standardised matrix that gives every unit a weight
  on itself.
\<close>

definition ring4 :: matrix where
  "ring4 = [[0, 1/2, 0, 1/2], [1/2, 0, 1/2, 0], [0, 1/2, 0, 1/2], [1/2, 0, 1/2, 0]]"

definition self2 :: matrix where
  "self2 = [[1/2, 1/2], [1/2, 1/2]]"

text \<open>A weights matrix of three rows and four columns.\<close>

definition wide3 :: matrix where
  "wide3 = [[0, 1, 0, 0], [1, 0, 1, 0], [0, 1, 0, 1]]"

text \<open>
  A world with three frames: the geo data frame at reference 0, a multiplier table at
  reference 1 and the identifiers at reference 2.
\<close>

definition frame_dfs :: frame where
  "frame_dfs =
     \<lparr>nrows = 3,
      cols = [(''FIPSNO'', [Num 28003, Num 28141, Num 28139]),
              (''geometry'', [Geom ''POLYGON 1'', Geom ''POLYGON 2'', Geom ''POLYGON 3''])]\<rparr>"

definition frame_dfm :: frame where
  "frame_dfm =
     \<lparr>nrows = 3,
      cols = [(''id'', [Num 28003, Num 28141, Num 28139]),
              (''Direct'', [Num 0, Num 0, Num 0]),
              (''EofNbrs'', [Num 1, Num 1, Num 1]),
              (''EonNbrs'', [Num (1/2), Num 2, Num (1/2)])]\<rparr>"

definition frame_oid :: frame where
  "frame_oid = \<lparr>nrows = 3, cols = [(''FIPSNO'', [Num 28003, Num 28141, Num 28139])]\<rparr>"

definition world0 :: world where
  "world0 =
     \<lparr>heap = (\<lambda>p. if p = 0 then frame_dfs else if p = 1 then frame_dfm else frame_oid),
      next_ref = 3, out = []\<rparr>"

section \<open>Properties of the distance decay functions\<close>

lemma exp_minus_half_bounds:
  "60651 / 100000 \<le> exp (- (1/2) :: real) \<and> exp (- (1/2) :: real) \<le> 60658 / 100000"
proof -
  from Maclaurin_exp_le [of "- (1/2)" 6]
  obtain t :: real where t: "\<bar>t\<bar> \<le> \<bar>- (1/2)\<bar>"
    and e: "exp (- (1/2) :: real) =
      (\<Sum>m<6. ((- (1/2)) ^ m) / fact m) + (exp t / fact 6) * (- (1/2)) ^ 6"
    by (elim exE conjE)
  have s: "(\<Sum>m<6. ((- (1/2) :: real) ^ m) / fact m) = 2329 / 3840"
    by (simp add: lessThan_nat_numeral fact_numeral power_divide)
  have "t \<le> 1" using t by simp
  then have "exp t \<le> exp 1" by simp
  also have "\<dots> \<le> 3" by (rule exp_le)
  finally have u: "exp t \<le> 3" .
  have l: "0 < exp t" by simp
  have r: "(exp t / fact 6) * (- (1/2)) ^ 6 = exp t / 46080"
    by (simp add: fact_numeral power_divide)
  show ?thesis unfolding e s r using u l by argo
qed

lemma epa_elementwise: "epa = map epanechnikov z"
  by (simp add: epa_def z2_def epanechnikov_def)

lemma quar_elementwise: "quar = map quartic z"
  by (simp add: quar_def z2_def quartic_def)

lemma gs_elementwise: "gs = map gaussian z"
  by (simp add: gs_def z2_def gaussian_def)

lemma quartic_le_epanechnikov: "0 \<le> x \<Longrightarrow> x \<le> 1 \<Longrightarrow> quartic x \<le> epanechnikov x"
proof -
  assume h: "0 \<le> x" "x \<le> 1"
  have "x ^ 2 \<le> 1" using h by (simp add: power_le_one)
  moreover have "0 \<le> x ^ 2" by simp
  ultimately have "(1 - x ^ 2) * (1 - x ^ 2) \<le> 1 * (1 - x ^ 2)"
    by (intro mult_right_mono) auto
  then show ?thesis by (simp add: quartic_def epanechnikov_def power2_eq_square)
qed

lemma quartic_less_epanechnikov: "0 < x \<Longrightarrow> x < 1 \<Longrightarrow> quartic x < epanechnikov x"
proof -
  assume h: "0 < x" "x < 1"
  have "x ^ 2 < 1" using h by (simp add: power_less_one_iff abs_square_less_1)
  moreover have "0 < x ^ 2" using h by simp
  ultimately have "(1 - x ^ 2) * (1 - x ^ 2) < 1 * (1 - x ^ 2)"
    by (intro mult_strict_right_mono) auto
  then show ?thesis by (simp add: quartic_def epanechnikov_def power2_eq_square)
qed

lemma kernels_antimono:
  assumes "0 \<le> x" "x \<le> y" "y \<le> 1"
  shows "triangular y \<le> triangular x" "epanechnikov y \<le> epanechnikov x"
    "quartic y \<le> quartic x"
proof -
  show "triangular y \<le> triangular x" using assms by (simp add: triangular_def)
  have sq: "x ^ 2 \<le> y ^ 2" using assms by (simp add: power_mono)
  then show "epanechnikov y \<le> epanechnikov x" by (simp add: epanechnikov_def)
  have "y ^ 2 \<le> 1" using assms by (simp add: power_le_one)
  then have "0 \<le> 1 - y ^ 2" by simp
  moreover have "1 - y ^ 2 \<le> 1 - x ^ 2" using sq by simp
  ultimately have "(1 - y ^ 2) ^ 2 \<le> (1 - x ^ 2) ^ 2" by (rule power_mono [rotated])
  then show "quartic y \<le> quartic x" by (simp add: quartic_def)
qed

lemma gaussian_strict_antimono: "0 \<le> x \<Longrightarrow> x < y \<Longrightarrow> gaussian y < gaussian x"
proof -
  assume h: "0 \<le> x" "x < y"
  have "x ^ 2 < y ^ 2" using h by (simp add: power_strict_mono)
  then show ?thesis by (simp add: gaussian_def)
qed

text \<open>
  C4, as amended. The quartic kernel is \<open>(1 - x\<^sup>2)\<^sup>2\<close>, which is the square of the
  Epanechnikov kernel for every \<open>x\<close>. On the unit interval it is therefore at most
  the Epanechnikov kernel, and strictly below it inside the interval, at \<open>0.25\<close> as
  well as at \<open>0.75\<close>. The kernel that the quartic exceeds in the lower half and falls
  below in the upper half is the triangular one.
\<close>

theorem quartic_is_epanechnikov_squared:
  "quartic x = (1 - x ^ 2) ^ 2
   \<and> quartic x = (epanechnikov x) ^ 2
   \<and> (0 \<le> x \<and> x \<le> 1 \<longrightarrow> quartic x \<le> epanechnikov x)
   \<and> (0 < x \<and> x < 1 \<longrightarrow> quartic x < epanechnikov x)
   \<and> quartic (1/4) < epanechnikov (1/4) \<and> quartic (3/4) < epanechnikov (3/4)
   \<and> triangular (1/4) < quartic (1/4) \<and> quartic (3/4) < triangular (3/4)"
proof -
  have "quartic (1/4) < epanechnikov (1/4)" "quartic (3/4) < epanechnikov (3/4)"
    "triangular (1/4) < quartic (1/4)" "quartic (3/4) < triangular (3/4)"
    by (simp_all add: quartic_def epanechnikov_def triangular_def power2_eq_square)
  then show ?thesis
    using quartic_le_epanechnikov [of x] quartic_less_epanechnikov [of x]
    by (simp add: quartic_def epanechnikov_def)
qed

theorem quartic_is_epanechnikov_squared_witness:
  "(0 \<le> (1/2 :: real) \<and> (1/2 :: real) \<le> 1) \<and> (0 < (1/2 :: real) \<and> (1/2 :: real) < 1)
   \<and> quartic (1/2) = (epanechnikov (1/2)) ^ 2 \<and> quartic (1/2) < epanechnikov (1/2)"
  using quartic_is_epanechnikov_squared [of "1/2"] by simp

text \<open>
  C4, as stated, fails at \<open>0.25\<close>: there the quartic kernel is not above the
  Epanechnikov kernel, not even equal to it, and it is its square.
\<close>

theorem quartic_above_epanechnikov_counterexample:
  "\<not> epanechnikov (1/4) < quartic (1/4) \<and> \<not> epanechnikov (1/4) \<le> quartic (1/4)
   \<and> quartic (1/4) = (epanechnikov (1/4)) ^ 2"
  by (simp add: quartic_def epanechnikov_def power2_eq_square)

text \<open>
  C5. The triangular kernel is \<open>1 - x\<close>. The triangular, Epanechnikov and quartic
  kernels are one at 0, zero at 1 and do not increase on the unit interval. The Gaussian
  kernel is positive everywhere, strictly decreasing from 0 on, and its value at 1 is
  \<open>exp (- 1/2)\<close>, within \<open>0.0001\<close> of \<open>0.6065\<close>.
\<close>

theorem kernel_shapes:
  "triangular x = 1 - x \<and> triangular 0 = 1 \<and> triangular 1 = 0
   \<and> epanechnikov 0 = 1 \<and> epanechnikov 1 = 0 \<and> quartic 0 = 1 \<and> quartic 1 = 0
   \<and> (0 \<le> x \<and> x \<le> y \<and> y \<le> 1 \<longrightarrow>
        triangular y \<le> triangular x \<and> epanechnikov y \<le> epanechnikov x
        \<and> quartic y \<le> quartic x)
   \<and> (0 \<le> x \<and> x < y \<longrightarrow> gaussian y < gaussian x)
   \<and> 0 < gaussian x
   \<and> gaussian 1 = exp (- (1/2)) \<and> \<bar>gaussian 1 - 0.6065\<bar> \<le> 1 / 10000"
proof -
  have ends: "triangular x = 1 - x" "triangular 0 = 1" "triangular 1 = 0"
    "epanechnikov 0 = 1" "epanechnikov 1 = 0" "quartic 0 = 1" "quartic 1 = 0"
    by (simp_all add: triangular_def epanechnikov_def quartic_def)
  have g: "0 < gaussian x" "gaussian 1 = exp (- (1/2))"
    by (simp_all add: gaussian_def)
  have g1: "\<bar>gaussian 1 - 0.6065\<bar> \<le> 1 / 10000"
    using exp_minus_half_bounds by (simp add: gaussian_def abs_le_iff)
  show ?thesis
    using ends g g1 kernels_antimono [of x y] gaussian_strict_antimono [of x y] by blast
qed

theorem kernel_shapes_witness:
  "(0 \<le> (1/4 :: real) \<and> (1/4 :: real) \<le> 3/4 \<and> (3/4 :: real) \<le> 1)
   \<and> (0 \<le> (1/4 :: real) \<and> (1/4 :: real) < 3/4)
   \<and> triangular (3/4) \<le> triangular (1/4) \<and> epanechnikov (3/4) \<le> epanechnikov (1/4)
   \<and> quartic (3/4) \<le> quartic (1/4) \<and> gaussian (3/4) < gaussian (1/4)"
  using kernel_shapes [of "1/4" "3/4"] by simp

text \<open>
  C6. On the unit interval and for a parameter that is not negative, the power
  transform is \<open>1 - x\<close> to the power of the parameter, a finite number. For the
  parameter zero it is one for every \<open>x\<close>, also at \<open>x = 1\<close>, and at \<open>x = 1\<close>
  it is zero for every positive parameter. For a whole parameter \<open>n\<close> it is the
  \<open>n\<close>-fold product, where zero to the power zero is one.
\<close>

theorem power_transform_values:
  "(0 \<le> x \<and> x \<le> 1 \<and> 0 \<le> alpha \<longrightarrow>
      power_transform x alpha = Inr (Fin (if alpha = 0 then 1 else (1 - x) powr alpha)))
   \<and> power_transform x 0 = Inr (Fin 1)
   \<and> (0 < alpha \<longrightarrow> power_transform 1 alpha = Inr (Fin 0))
   \<and> (x \<le> 1 \<longrightarrow> power_transform x (real n) = Inr (Fin ((1 - x) ^ n)))"
proof -
  have "power_transform x (real n) = Inr (Fin ((1 - x) ^ n))" if "x \<le> 1"
    using that by (cases "n = 0"; cases "x = 1")
      (auto simp: power_transform_def float_power_def powr_realpow)
  then show ?thesis
    by (auto simp: power_transform_def float_power_def)
qed

theorem power_transform_values_witness:
  "(0 \<le> (1/2 :: real) \<and> (1/2 :: real) \<le> 1 \<and> 0 \<le> (2 :: real))
   \<and> (0 < (2 :: real)) \<and> ((1/2 :: real) \<le> 1)
   \<and> power_transform (1/2) 2 = Inr (Fin (1/4))
   \<and> power_transform 1 2 = Inr (Fin 0)
   \<and> power_transform 1 0 = Inr (Fin 1)"
  using power_transform_values [of "1/2" 2 2] power_transform_values [of 1 2 0]
  by (simp add: power_divide)

text \<open>
  C7, as amended. The exponential transform returns \<open>exp (- alpha x)\<close> for every
  parameter, negative ones included, and never an error; for the parameter zero it is
  one for every \<open>x\<close>. That the parameter is not negative is a convention of the
  notebook, kept by the values it evaluates.
\<close>

theorem exponential_transform_values:
  "exponential_transform x alpha = Inr (Fin (exp (- alpha * x)))
   \<and> exponential_transform x 0 = Inr (Fin 1)
   \<and> list_all (\<lambda>i. 0 \<le> i) a"
  by (simp add: exponential_transform_def a_def)

text \<open>
  C7, as stated, fails at the parameter \<open>- 1\<close>: the transform returns the number
  \<open>exp 1\<close> at \<open>x = 1\<close>, which is above one, and no error.
\<close>

theorem exponential_transform_counterexample:
  "exponential_transform 1 (- 1) = Inr (Fin (exp 1)) \<and> \<not> isl (exponential_transform 1 (- 1))
   \<and> 1 < exp (1 :: real)"
  by (simp add: exponential_transform_def)

section \<open>Properties of the helper functions\<close>

lemmas helper_evals =
  nbreffect_def coli_def extreme_row_def getitem_def idxmax_def idxmin_def first_extreme_def
  numbered_def int_series_def int_cell_def iloc_def iloc_row_def report_def alloc_def
  concat_columns_def pad_def multmap_def world0_def frame_dfm_def frame_dfs_def frame_oid_def
  Let_def

lemma multmap_heap:
  "heap (snd (multmap q column model w)) = heap w
   \<and> next_ref (snd (multmap q column model w)) = next_ref w"
  by (simp add: multmap_def Let_def)

lemma nbreffect_frame:
  assumes "nbreffect dfs dfm oid mult model w = (r, w')"
  shows "\<forall>p. p \<noteq> next_ref w \<longrightarrow> heap w' p = heap w p"
    and "r = Inr () \<longrightarrow> next_ref w' = Suc (next_ref w)
           \<and> heap w' (next_ref w) = concat_columns (heap w dfs) (heap w dfm)
           \<and> (\<exists>fig. last (out w') = Show fig
                \<and> fig_data fig = concat_columns (heap w dfs) (heap w dfm))"
  using assms
  by (auto simp: nbreffect_def alloc_def multmap_def Let_def
      split: sum.splits if_splits prod.splits)



text \<open>
  C10. \<^verbatim>\<open>nbreffect\<close> leaves every object that exists before the call as it was, in
  particular the three it is given. When it succeeds, the frame it hands to
  \<^verbatim>\<open>multmap\<close> is the concatenation of the two frames, stored under a reference
  that was unused before. \<^verbatim>\<open>multmap\<close> changes no object at all.
\<close>

theorem nbreffect_leaves_inputs:
  assumes "dfs < next_ref w" and "dfm < next_ref w" and "oid < next_ref w"
  shows "heap (snd (nbreffect dfs dfm oid mult model w)) dfs = heap w dfs
    \<and> heap (snd (nbreffect dfs dfm oid mult model w)) dfm = heap w dfm
    \<and> heap (snd (nbreffect dfs dfm oid mult model w)) oid = heap w oid
    \<and> (\<forall>p<next_ref w. heap (snd (nbreffect dfs dfm oid mult model w)) p = heap w p)
    \<and> (fst (nbreffect dfs dfm oid mult model w) = Inr () \<longrightarrow>
         next_ref (snd (nbreffect dfs dfm oid mult model w)) = Suc (next_ref w)
         \<and> heap (snd (nbreffect dfs dfm oid mult model w)) (next_ref w)
             = concat_columns (heap w dfs) (heap w dfm)
         \<and> (\<exists>fig. last (out (snd (nbreffect dfs dfm oid mult model w))) = Show fig
              \<and> fig_data fig = concat_columns (heap w dfs) (heap w dfm)))
    \<and> heap (snd (multmap dfm column model w)) = heap w
    \<and> next_ref (snd (multmap dfm column model w)) = next_ref w"
proof -
  obtain r w' where run: "nbreffect dfs dfm oid mult model w = (r, w')"
    by (cases "nbreffect dfs dfm oid mult model w")
  from nbreffect_frame [OF run] assms multmap_heap [of dfm column model w]
  show ?thesis by (simp add: run)
qed

theorem nbreffect_leaves_inputs_witness:
  "(0 < next_ref world0 \<and> 1 < next_ref world0 \<and> 2 < next_ref world0)
   \<and> fst (nbreffect 0 1 2 ''EonNbrs'' ''slx'' world0) = Inr ()
   \<and> heap (snd (nbreffect 0 1 2 ''EonNbrs'' ''slx'' world0)) 0 = frame_dfs
   \<and> heap (snd (nbreffect 0 1 2 ''EonNbrs'' ''slx'' world0)) 1 = frame_dfm
   \<and> heap (snd (nbreffect 0 1 2 ''EonNbrs'' ''slx'' world0)) 2 = frame_oid
   \<and> heap (snd (nbreffect 0 1 2 ''EonNbrs'' ''slx'' world0)) 3
       = concat_columns frame_dfs frame_dfm
   \<and> next_ref (snd (nbreffect 0 1 2 ''EonNbrs'' ''slx'' world0)) = 4"
proof -
  have ok: "fst (nbreffect 0 1 2 ''EonNbrs'' ''slx'' world0) = Inr ()"
    by (simp add: helper_evals)
  have w: "next_ref world0 = 3" "heap world0 0 = frame_dfs" "heap world0 1 = frame_dfm"
    "heap world0 2 = frame_oid"
    by (simp_all add: world0_def)
  show ?thesis
    using nbreffect_leaves_inputs [of 0 world0 1 2 "''EonNbrs''" "''slx''" "''EonNbrs''"] ok w
    by simp
qed

section \<open>Properties of the multiplier calculator\<close>

lemma sum_list_upt: "(\<Sum>k\<leftarrow>[0..<n]. f k) = (\<Sum>k<n. f k)" for f :: "nat \<Rightarrow> real"
  by (simp add: interv_sum_list_conv_sum_set_nat atLeast0LessThan)

lemma sum_skip: "i < n \<Longrightarrow> (\<Sum>j<n. if j = i then 0 else f j) = (\<Sum>j<n. f j) - f i"
  for f :: "nat \<Rightarrow> real"
proof -
  assume i: "i < n"
  have "(\<Sum>j<n. f j) = (\<Sum>j<n. (if j = i then 0 else f j) + (if j = i then f i else 0))"
    by (intro sum.cong) auto
  also have "\<dots> = (\<Sum>j<n. if j = i then 0 else f j) + (\<Sum>j<n. if j = i then f i else 0)"
    by (simp add: sum.distrib)
  also have "(\<Sum>j<n. if j = i then f i else 0) = f i"
    using i by simp
  finally show ?thesis by simp
qed

lemma row_sum_nth: "length r = n \<Longrightarrow> (\<Sum>j<n. r ! j) = sum_list r" for r :: "real list"
  by (metis atLeast0LessThan sum_list_sum_nth)

lemma sum_Direct: "sum_list (Direct M) = (\<Sum>i<length M. M ! i ! i)"
  by (simp add: Direct_def sum_list_upt)

lemma nth_row_sums:
  "i < length M \<Longrightarrow>
     row_sums whole M ! i = (\<Sum>j<length M. if j = i \<and> \<not> whole then 0 else M ! i ! j)"
  by (simp add: row_sums_def sum_list_upt cong: if_cong)



lemma sum_row_sums_whole:
  "sum_list (row_sums True M) = (\<Sum>i<length M. \<Sum>j<length M. M ! i ! j)"
  by (simp add: row_sums_def sum_list_upt)

lemma sum_col_sums_whole:
  "sum_list (col_sums True M) = (\<Sum>i<length M. \<Sum>j<length M. M ! i ! j)"
proof -
  have "sum_list (col_sums True M) = (\<Sum>i<length M. \<Sum>j<length M. M ! j ! i)"
    by (simp add: col_sums_def sum_list_upt)
  also have "\<dots> = (\<Sum>i<length M. \<Sum>j<length M. M ! i ! j)"
    by (rule sum.swap)
  finally show ?thesis .
qed

lemma sum_row_sums_offdiag:
  "sum_list (row_sums False M)
     = (\<Sum>i<length M. \<Sum>j<length M. M ! i ! j) - (\<Sum>i<length M. M ! i ! i)"
proof -
  have "sum_list (row_sums False M)
      = (\<Sum>i<length M. \<Sum>j<length M. if j = i then 0 else M ! i ! j)"
    by (simp add: row_sums_def sum_list_upt)
  also have "\<dots> = (\<Sum>i<length M. (\<Sum>j<length M. M ! i ! j) - M ! i ! i)"
    by (intro sum.cong refl) (simp add: sum_skip)
  finally show ?thesis by (simp add: sum_subtractf)
qed

lemma sum_col_sums_offdiag:
  "sum_list (col_sums False M)
     = (\<Sum>i<length M. \<Sum>j<length M. M ! i ! j) - (\<Sum>i<length M. M ! i ! i)"
proof -
  have "sum_list (col_sums False M)
      = (\<Sum>i<length M. \<Sum>j<length M. if j = i then 0 else M ! j ! i)"
    by (simp add: col_sums_def sum_list_upt)
  also have "\<dots> = (\<Sum>i<length M. (\<Sum>j<length M. M ! j ! i) - M ! i ! i)"
    by (intro sum.cong refl) (simp add: sum_skip)
  also have "\<dots> = (\<Sum>i<length M. \<Sum>j<length M. M ! j ! i) - (\<Sum>i<length M. M ! i ! i)"
    by (simp add: sum_subtractf)
  also have "(\<Sum>i<length M. \<Sum>j<length M. M ! j ! i)
      = (\<Sum>i<length M. \<Sum>j<length M. M ! i ! j)"
    by (rule sum.swap)
  finally show ?thesis .
qed

lemma total_row_standardized:
  assumes "is_square W" "rows_sum_to_one W"
  shows "(\<Sum>i<length W. \<Sum>j<length W. W ! i ! j) = real (length W)"
proof -
  have "(\<Sum>j<length W. W ! i ! j) = 1" if "i < length W" for i
  proof -
    have "W ! i \<in> set W" using that by simp
    then have "length (W ! i) = length W" "sum_list (W ! i) = 1"
      using assms by (auto simp: is_square_def rows_sum_to_one_def list_all_iff)
    then show ?thesis using row_sum_nth [of "W ! i" "length W"] by simp
  qed
  then show ?thesis by simp
qed

lemma numbers_Num: "numbers (map Num xs) = xs"
  by (induction xs) (simp_all add: numbers_def)

lemma column_mean_table:
  "column_mean (multiplier_table model ids M) ''Direct'' = mean (Direct M)"
  "column_mean (multiplier_table model ids M) ''EofNbrs'' = mean (EofNbrs model M)"
  "column_mean (multiplier_table model ids M) ''EonNbrs'' = mean (EonNbrs model M)"
  by (simp_all add: column_mean_def multiplier_table_def multiplier_columns_def numbers_Num)

lemma column_numbers_table:
  "column_numbers (multiplier_table model ids M) ''EonNbrs'' = EonNbrs model M"
  by (simp add: column_numbers_def multiplier_table_def multiplier_columns_def numbers_Num)

lemma mean_nonempty: "xs \<noteq> [] \<Longrightarrow> mean xs = Some (sum_list xs / real (length xs))"
  by (simp add: mean_def)

lemmas calc_evals =
  i_multipliers_def multiplier_matrix_def multiplier_table_def multiplier_columns_def
  is_square_def lag_system_def Direct_def EofNbrs_def EonNbrs_def row_sums_def col_sums_def
  column_mean_def column_numbers_def numbers_def mean_def inverse_contract_def
  is_inverse_of_def mat_mul_def identity_def rows_sum_to_one_def zero_diagonal_def

text \<open>
  C8. A matrix that is not square, or a vector of identifiers whose length is not the
  number of rows, makes the calculator fail with \<open>DimensionMismatch\<close>, whatever the
  model, the coefficient and the inversion routine are: no table comes back.
\<close>

theorem dimension_mismatch_first:
  "\<not> is_square W \<or> length ids \<noteq> length W \<Longrightarrow>
     i_multipliers invert W coef model ids = Inl DimensionMismatch"
  by (auto simp: i_multipliers_def)

theorem dimension_mismatch_first_witness:
  "\<not> is_square wide3 \<and> length wide3 = 3 \<and> length (hd wide3) = 4
   \<and> i_multipliers line3_invert wide3 (1/2) ''lag'' ids3 = Inl DimensionMismatch
   \<and> is_square line3 \<and> length ids2 \<noteq> length line3
   \<and> i_multipliers line3_invert line3 (1/2) ''lag'' ids2 = Inl DimensionMismatch"
proof -
  have h: "\<not> is_square wide3" "length ids2 \<noteq> length line3" "is_square line3"
    "length wide3 = 3" "length (hd wide3) = 4"
    by (simp_all add: is_square_def wide3_def line3_def ids2_def)
  show ?thesis
    using h dimension_mismatch_first [of wide3 ids3 line3_invert "1/2" "''lag''"]
      dimension_mismatch_first [of line3 ids2 line3_invert "1/2" "''lag''"]
    by simp
qed

subsection \<open>The SLX model\<close>

text \<open>
  C3. For a row-standardised weights matrix with at least one unit, the table of the
  \<^verbatim>\<open>slx\<close> model has mean one in the column \<^verbatim>\<open>EofNbrs\<close> and mean one in the
  column \<^verbatim>\<open>EonNbrs\<close>, exactly, whatever the diagonal of the matrix holds.
\<close>

theorem slx_unit_means:
  assumes t: "i_multipliers invert W coef ''slx'' ids = Inr t"
    and rs: "rows_sum_to_one W"
    and n: "W \<noteq> []"
  shows "column_mean t ''EofNbrs'' = Some 1 \<and> column_mean t ''EonNbrs'' = Some 1"
proof -
  from t have sq: "is_square W" and tab: "t = multiplier_table ''slx'' ids W"
    by (auto simp: i_multipliers_def multiplier_matrix_def split: if_splits)
  have ne: "EofNbrs ''slx'' W \<noteq> []" "EonNbrs ''slx'' W \<noteq> []"
    "length (EofNbrs ''slx'' W) = length W" "length (EonNbrs ''slx'' W) = length W"
    using n by (simp_all add: EofNbrs_def EonNbrs_def row_sums_def col_sums_def)
  have tot: "(\<Sum>i<length W. \<Sum>j<length W. W ! i ! j) = real (length W)"
    by (rule total_row_standardized [OF sq rs])
  have "sum_list (EofNbrs ''slx'' W) = real (length W)"
    "sum_list (EonNbrs ''slx'' W) = real (length W)"
    by (simp_all add: EofNbrs_def EonNbrs_def sum_row_sums_whole sum_col_sums_whole tot)
  then show ?thesis
    using ne n by (simp add: tab column_mean_table mean_nonempty)
qed

theorem slx_unit_means_witness:
  "i_multipliers line3_invert ring4 0 ''slx'' ids4
     = Inr \<lparr>nrows = 4,
            cols = [(''id'', ids4), (''Direct'', [Num 0, Num 0, Num 0, Num 0]),
                    (''EofNbrs'', [Num 1, Num 1, Num 1, Num 1]),
                    (''EonNbrs'', [Num 1, Num 1, Num 1, Num 1])]\<rparr>
   \<and> rows_sum_to_one ring4 \<and> ring4 \<noteq> []
   \<and> column_mean (multiplier_table ''slx'' ids4 ring4) ''EofNbrs'' = Some 1
   \<and> column_mean (multiplier_table ''slx'' ids4 ring4) ''EonNbrs'' = Some 1
   \<and> i_multipliers line3_invert self2 0 ''slx'' ids2 = Inr (multiplier_table ''slx'' ids2 self2)
   \<and> rows_sum_to_one self2 \<and> self2 \<noteq> []
   \<and> column_mean (multiplier_table ''slx'' ids2 self2) ''EofNbrs'' = Some 1
   \<and> column_mean (multiplier_table ''slx'' ids2 self2) ''EonNbrs'' = Some 1"
proof -
  have run: "i_multipliers line3_invert ring4 0 ''slx'' ids4
      = Inr (multiplier_table ''slx'' ids4 ring4)"
    by (simp add: i_multipliers_def multiplier_matrix_def is_square_def ring4_def ids4_def)
  have tab: "multiplier_table ''slx'' ids4 ring4
      = \<lparr>nrows = 4,
         cols = [(''id'', ids4), (''Direct'', [Num 0, Num 0, Num 0, Num 0]),
                 (''EofNbrs'', [Num 1, Num 1, Num 1, Num 1]),
                 (''EonNbrs'', [Num 1, Num 1, Num 1, Num 1])]\<rparr>"
    by (simp add: multiplier_table_def multiplier_columns_def Direct_def EofNbrs_def
        EonNbrs_def row_sums_def col_sums_def ring4_def)
  have h: "rows_sum_to_one ring4" "ring4 \<noteq> []"
    by (simp_all add: rows_sum_to_one_def ring4_def)
  have run2: "i_multipliers line3_invert self2 0 ''slx'' ids2
      = Inr (multiplier_table ''slx'' ids2 self2)"
    by (simp add: i_multipliers_def multiplier_matrix_def is_square_def self2_def ids2_def)
  have h2: "rows_sum_to_one self2" "self2 \<noteq> []"
    by (simp_all add: rows_sum_to_one_def self2_def)
  from slx_unit_means [OF run h] slx_unit_means [OF run2 h2] run run2 h h2 show ?thesis
    by (simp flip: tab)
qed

subsection \<open>The lag model\<close>

lemma nth_mat_mul:
  "i < length A \<Longrightarrow> j < length A \<Longrightarrow>
     mat_mul A B ! i ! j = (\<Sum>k<length A. A ! i ! k * B ! k ! j)"
  by (simp add: mat_mul_def sum_list_upt)


lemma nth_identity: "i < n \<Longrightarrow> j < n \<Longrightarrow> identity n ! i ! j = (if i = j then 1 else 0)"
  by (simp add: identity_def)

lemma nth_lag_system:
  "i < length W \<Longrightarrow> j < length W \<Longrightarrow>
     lag_system W coef ! i ! j = (if i = j then 1 else 0) - coef * W ! i ! j"
  by (simp add: lag_system_def)

lemma length_lag_system: "length (lag_system W coef) = length W"
  by (simp add: lag_system_def)

lemma lag_row_sum:
  assumes sq: "is_square W" and rs: "rows_sum_to_one W" and k: "k < length W"
  shows "(\<Sum>j<length W. lag_system W coef ! k ! j) = 1 - coef"
proof -
  have "W ! k \<in> set W" using k by simp
  then have "length (W ! k) = length W" "sum_list (W ! k) = 1"
    using sq rs by (auto simp: is_square_def rows_sum_to_one_def list_all_iff)
  then have w: "(\<Sum>j<length W. W ! k ! j) = 1"
    using row_sum_nth [of "W ! k" "length W"] by simp
  have "(\<Sum>j<length W. lag_system W coef ! k ! j)
      = (\<Sum>j<length W. (if k = j then 1 else 0) - coef * W ! k ! j)"
    using k by (intro sum.cong refl) (simp add: nth_lag_system)
  also have "\<dots> = (\<Sum>j<length W. if k = j then 1 else 0) - coef * (\<Sum>j<length W. W ! k ! j)"
    by (simp add: sum_subtractf sum_distrib_left)
  also have "(\<Sum>j<length W. if k = j then 1 else (0::real)) = 1"
    using k by simp
  finally show ?thesis using w by simp
qed

lemma inverse_row_sum:
  assumes sq: "is_square W" and rs: "rows_sum_to_one W"
    and inv: "is_inverse_of (lag_system W coef) M" and i: "i < length W"
  shows "(1 - coef) * (\<Sum>k<length W. M ! i ! k) = 1"
proof -
  let ?n = "length W"
  let ?A = "lag_system W coef"
  have len: "length M = ?n" and prod: "mat_mul M ?A = identity ?n"
    using inv by (simp_all add: is_inverse_of_def length_lag_system)
  have "(\<Sum>j<?n. mat_mul M ?A ! i ! j) = (\<Sum>j<?n. if i = j then 1 else (0::real))"
    unfolding prod using i by (intro sum.cong refl) (simp add: nth_identity)
  also have "\<dots> = 1" using i by simp
  finally have one: "(\<Sum>j<?n. mat_mul M ?A ! i ! j) = 1" .
  have "(\<Sum>j<?n. mat_mul M ?A ! i ! j) = (\<Sum>j<?n. \<Sum>k<?n. M ! i ! k * ?A ! k ! j)"
    using i len by (intro sum.cong refl) (simp add: nth_mat_mul)
  also have "\<dots> = (\<Sum>k<?n. \<Sum>j<?n. M ! i ! k * ?A ! k ! j)"
    by (rule sum.swap)
  also have "\<dots> = (\<Sum>k<?n. M ! i ! k * (1 - coef))"
    using lag_row_sum [OF sq rs] by (intro sum.cong refl) (simp flip: sum_distrib_left)
  also have "\<dots> = (1 - coef) * (\<Sum>k<?n. M ! i ! k)"
    by (simp add: sum_distrib_left mult.commute)
  finally show ?thesis using one by simp
qed

lemma lag_total:
  assumes sq: "is_square W" and rs: "rows_sum_to_one W"
    and inv: "is_inverse_of (lag_system W coef) M" and n: "W \<noteq> []"
  shows "coef \<noteq> 1"
    and "(\<Sum>i<length M. \<Sum>k<length M. M ! i ! k) = real (length W) / (1 - coef)"
proof -
  have len: "length M = length W"
    using inv by (simp add: is_inverse_of_def length_lag_system)
  have "0 < length W" using n by simp
  from inverse_row_sum [OF sq rs inv this] show c: "coef \<noteq> 1" by auto
  have "(\<Sum>k<length W. M ! i ! k) = 1 / (1 - coef)" if "i < length W" for i
    using inverse_row_sum [OF sq rs inv that] c by (simp add: field_simps)
  then show "(\<Sum>i<length M. \<Sum>k<length M. M ! i ! k) = real (length W) / (1 - coef)"
    by (simp add: len)
qed

lemma pair2_system: "lag_system pair2 (1/2) = [[1, - (1/2)], [- (1/2), 1]]"
  by (simp add: lag_system_def pair2_def)

text \<open>
  C1, as amended. For a row-standardised weights matrix with at least one unit, and an
  inversion routine whose answer for \<open>I - coef W\<close> is its inverse, the table of the
  \<^verbatim>\<open>lag\<close> model satisfies: the mean of \<^verbatim>\<open>Direct\<close> plus the mean of
  \<^verbatim>\<open>EofNbrs\<close> is \<open>1 / (1 - coef)\<close>, exactly and for every coefficient, and the
  mean of \<^verbatim>\<open>EonNbrs\<close> is the mean of \<^verbatim>\<open>EofNbrs\<close>.
\<close>

theorem lag_total_impact:
  assumes t: "i_multipliers invert W coef ''lag'' ids = Inr t"
    and contract: "inverse_contract invert (lag_system W coef)"
    and rs: "rows_sum_to_one W"
    and n: "W \<noteq> []"
  shows "\<exists>adi aii. column_mean t ''Direct'' = Some adi \<and> column_mean t ''EofNbrs'' = Some aii
           \<and> column_mean t ''EonNbrs'' = Some aii
           \<and> adi + aii = 1 / (1 - coef) \<and> coef \<noteq> 1"
proof -
  from t have sq: "is_square W"
    by (auto simp: i_multipliers_def split: if_splits)
  from t obtain M where M: "invert (lag_system W coef) = Some M"
    and tab: "t = multiplier_table ''lag'' ids M"
    by (auto simp: i_multipliers_def multiplier_matrix_def split: if_splits option.splits)
  from contract M have inv: "is_inverse_of (lag_system W coef) M"
    by (simp add: inverse_contract_def)
  then have len: "length M = length W"
    by (simp add: is_inverse_of_def length_lag_system)
  note tot = lag_total [OF sq rs inv n]
  have l: "Direct M \<noteq> []" "EofNbrs ''lag'' M \<noteq> []" "EonNbrs ''lag'' M \<noteq> []"
    "length (Direct M) = length W" "length (EofNbrs ''lag'' M) = length W"
    "length (EonNbrs ''lag'' M) = length W"
    using n len by (simp_all add: Direct_def EofNbrs_def EonNbrs_def row_sums_def col_sums_def)
  have s: "sum_list (EofNbrs ''lag'' M)
      = (\<Sum>i<length M. \<Sum>j<length M. M ! i ! j) - (\<Sum>i<length M. M ! i ! i)"
    "sum_list (EonNbrs ''lag'' M)
      = (\<Sum>i<length M. \<Sum>j<length M. M ! i ! j) - (\<Sum>i<length M. M ! i ! i)"
    by (simp_all add: EofNbrs_def EonNbrs_def sum_row_sums_offdiag sum_col_sums_offdiag)
  have d: "column_mean t ''Direct'' = Some (sum_list (Direct M) / real (length W))"
    using l by (simp add: tab column_mean_table mean_def)
  have e: "column_mean t ''EofNbrs'' = Some (sum_list (EofNbrs ''lag'' M) / real (length W))"
    using l by (simp add: tab column_mean_table mean_def)
  have o: "column_mean t ''EonNbrs'' = Some (sum_list (EonNbrs ''lag'' M) / real (length W))"
    using l by (simp add: tab column_mean_table mean_def)
  have "sum_list (Direct M) / real (length W)
        + sum_list (EofNbrs ''lag'' M) / real (length W)
      = (real (length W) / (1 - coef)) / real (length W)"
    by (simp add: sum_Direct s tot(2) flip: add_divide_distrib)
  also have "\<dots> = 1 / (1 - coef)" using n by simp
  finally show ?thesis using d e o tot(1) by (simp add: s)
qed

theorem lag_total_impact_witness:
  "i_multipliers pair2_invert pair2 (1/2) ''lag'' ids2 = Inr (multiplier_table ''lag'' ids2 pair2_inverse)
   \<and> inverse_contract pair2_invert (lag_system pair2 (1/2))
   \<and> rows_sum_to_one pair2 \<and> pair2 \<noteq> []
   \<and> column_mean (multiplier_table ''lag'' ids2 pair2_inverse) ''Direct'' = Some (4/3)
   \<and> column_mean (multiplier_table ''lag'' ids2 pair2_inverse) ''EofNbrs'' = Some (2/3)
   \<and> (\<exists>adi aii. column_mean (multiplier_table ''lag'' ids2 pair2_inverse) ''Direct'' = Some adi
        \<and> column_mean (multiplier_table ''lag'' ids2 pair2_inverse) ''EofNbrs'' = Some aii
        \<and> column_mean (multiplier_table ''lag'' ids2 pair2_inverse) ''EonNbrs'' = Some aii
        \<and> adi + aii = 1 / (1 - 1/2) \<and> (1/2 :: real) \<noteq> 1)"
proof -
  have sq: "is_square pair2" "length ids2 = length pair2" "rows_sum_to_one pair2" "pair2 \<noteq> []"
    by (simp_all add: is_square_def rows_sum_to_one_def pair2_def ids2_def)
  have run: "i_multipliers pair2_invert pair2 (1/2) ''lag'' ids2
      = Inr (multiplier_table ''lag'' ids2 pair2_inverse)"
    by (simp add: i_multipliers_def multiplier_matrix_def sq pair2_invert_def pair2_system)
  have con: "inverse_contract pair2_invert (lag_system pair2 (1/2))"
    unfolding pair2_invert_def pair2_system
    by (simp add: inverse_contract_def is_inverse_of_def is_square_def mat_mul_def
        identity_def pair2_inverse_def)
  have m: "column_mean (multiplier_table ''lag'' ids2 pair2_inverse) ''Direct'' = Some (4/3)"
    "column_mean (multiplier_table ''lag'' ids2 pair2_inverse) ''EofNbrs'' = Some (2/3)"
    by (simp_all add: column_mean_table mean_def Direct_def EofNbrs_def row_sums_def pair2_inverse_def)
  from lag_total_impact [OF run con sq(3) sq(4)] run con sq m show ?thesis
    by blast
qed

lemma line3_system:
  "lag_system line3 (1/2) = [[1, - (1/2), 0], [- (1/2), 1, - (1/2)], [0, - (1/2), 1]]"
  by (simp add: lag_system_def line3_def)

text \<open>
  C1, as stated, fails for a weights matrix that the calculator accepts and that is not
  row-standardised: on three units in a line with binary weights and the coefficient
  0.5, the matrix \<open>I - coef W\<close> has an inverse, the two means are both \<open>5/3\<close>,
  and their sum is not \<open>1 / (1 - 0.5) = 2\<close>.
\<close>

theorem lag_total_impact_counterexample:
  "inverse_contract line3_invert (lag_system line3 (1/2))
   \<and> i_multipliers line3_invert line3 (1/2) ''lag'' ids3
       = Inr (multiplier_table ''lag'' ids3 line3_inverse)
   \<and> column_mean (multiplier_table ''lag'' ids3 line3_inverse) ''Direct'' = Some (5/3)
   \<and> column_mean (multiplier_table ''lag'' ids3 line3_inverse) ''EofNbrs'' = Some (5/3)
   \<and> \<not> \<bar>(5/3 + 5/3) - 1 / (1 - 1/2)\<bar> \<le> (1 / 10 ^ 6 :: real)"
proof -
  have sq: "is_square line3" "length ids3 = length line3"
    by (simp_all add: is_square_def line3_def ids3_def)
  have run: "i_multipliers line3_invert line3 (1/2) ''lag'' ids3
      = Inr (multiplier_table ''lag'' ids3 line3_inverse)"
    by (simp add: i_multipliers_def multiplier_matrix_def sq line3_invert_def line3_system)
  have con: "inverse_contract line3_invert (lag_system line3 (1/2))"
    unfolding line3_invert_def line3_system
    by (simp add: inverse_contract_def is_inverse_of_def is_square_def mat_mul_def
        identity_def line3_inverse_def)
  have m: "column_mean (multiplier_table ''lag'' ids3 line3_inverse) ''Direct'' = Some (5/3)"
    "column_mean (multiplier_table ''lag'' ids3 line3_inverse) ''EofNbrs'' = Some (5/3)"
    by (simp_all add: column_mean_table mean_def Direct_def EofNbrs_def row_sums_def line3_inverse_def)
  show ?thesis using run con m by simp
qed

subsection \<open>The rank order of the effect on neighbours\<close>



















text \<open>
  The ring of four units and the pair meet the two conditions on the weights matrix;
  the matrix of the counterexample below does not. For the exponential and the power
  model the ranks of \<^verbatim>\<open>EonNbrs\<close> change with the parameter as well: a unit with
  one near neighbour and a unit with two far neighbours change places.
\<close>

lemma ring4_pair2_conditions:
  "mat_mul ring4 (mat_mul ring4 ring4) = ring4"
  "same_order (col_sums False ring4)
     (map2 (+) (col_sums False ring4) (col_sums False (mat_mul ring4 ring4)))"
  "mat_mul pair2 (mat_mul pair2 pair2) = pair2"
  "same_order (col_sums False pair2)
     (map2 (+) (col_sums False pair2) (col_sums False (mat_mul pair2 pair2)))"
  "mat_mul knn4 (mat_mul knn4 knn4) \<noteq> knn4"
  by (simp_all add: same_order_def col_sums_def mat_mul_def ring4_def pair2_def knn4_def)

lemma ranks3: "x3 < x1 \<Longrightarrow> x1 < x2 \<Longrightarrow> ranks [x1, x2, x3] = [2, 3, 1]"
  "x3 < x2 \<Longrightarrow> x2 < x1 \<Longrightarrow> ranks [x1, x2, x3] = [3, 2, 1]"
  by (auto simp: ranks_def rank_in_def)

lemma exponential_ranks_change:
  "\<exists>t1 t2. i_multipliers invert fractions3 1 ''exponential'' ids3 = Inr t1
     \<and> i_multipliers invert fractions3 2 ''exponential'' ids3 = Inr t2
     \<and> ranks (column_numbers t1 ''EonNbrs'') = [2, 3, 1]
     \<and> ranks (column_numbers t2 ''EonNbrs'') = [3, 2, 1]"
proof -
  define x :: real where "x = exp (- (1/2))"
  define y :: real where "y = exp (- 1)"
  have x: "60651 / 100000 \<le> x" "x \<le> 60658 / 100000"
    using exp_minus_half_bounds by (simp_all add: x_def)
  have yx: "y = x * x" and e2: "exp (- 2 :: real) = y * y"
    by (simp_all add: x_def y_def flip: exp_add)
  have "6/10 * (6/10) \<le> x * x" using x by (intro mult_mono) auto
  moreover have "x * x \<le> 60658 / 100000 * (60658 / 100000)" using x by (intro mult_mono) auto
  ultimately have y: "36 / 100 \<le> y" "y \<le> 37 / 100" by (simp_all add: yx)
  have yy: "y * y \<le> 37 / 100 * y" using y by (intro mult_right_mono) auto
  have yp: "0 < y * y" using y by (simp add: zero_less_mult_iff)
  have o1: "y < x" "x < 2 * y" using x y by linarith+
  have o2: "y * y < 2 * (y * y)" "2 * (y * y) < y" using yy yp y by linarith+
  have sq: "is_square fractions3" "length ids3 = length fractions3"
    by (simp_all add: is_square_def fractions3_def ids3_def)
  have c1: "column_numbers (multiplier_table ''exponential'' ids3
        (map (map (\<lambda>x. if x = 0 then 0 else exp (- 1 * x))) fractions3)) ''EonNbrs''
      = [x, 2 * y, y]"
    by (simp add: column_numbers_table EonNbrs_def col_sums_def fractions3_def x_def y_def)
  have c2: "column_numbers (multiplier_table ''exponential'' ids3
        (map (map (\<lambda>x. if x = 0 then 0 else exp (- 2 * x))) fractions3)) ''EonNbrs''
      = [y, 2 * (y * y), y * y]"
    by (simp add: column_numbers_table EonNbrs_def col_sums_def fractions3_def e2)
      (simp add: y_def)
  have r1: "ranks [x, 2 * y, y] = [2, 3, 1]"
    using o1 by (intro ranks3) simp_all
  have r2: "ranks [y, 2 * (y * y), y * y] = [3, 2, 1]"
    using o2 by (intro ranks3) simp_all
  show ?thesis
    by (simp add: i_multipliers_def multiplier_matrix_def sq c1 c2 r1 r2)
qed

lemma power_ranks_change:
  "\<exists>t1 t2. i_multipliers invert fractions4 1 ''power'' ids4 = Inr t1
     \<and> i_multipliers invert fractions4 2 ''power'' ids4 = Inr t2
     \<and> ranks (column_numbers t1 ''EonNbrs'') \<noteq> ranks (column_numbers t2 ''EonNbrs'')
     \<and> \<not> spearman_is_one (column_numbers t1 ''EonNbrs'') (column_numbers t2 ''EonNbrs'')"
proof -
  have sq: "is_square fractions4" "length ids4 = length fractions4"
    by (simp_all add: is_square_def fractions4_def ids4_def)
  have p: "(1/2 :: real) powr 2 = 1/4" "(1/10 :: real) powr 2 = 1/100"
    "(9/10 :: real) powr 2 = 81/100"
    by (simp_all add: power_divide)
  have c1: "column_numbers (multiplier_table ''power'' ids4
        (map (map (\<lambda>x. if x = 0 then 0 else if (1::real) = 0 then 1
           else if x < 1 then (1 - x) powr 1 else 0)) fractions4)) ''EonNbrs''
      = [1/10, 1, 9/10, 0]"
    by (simp add: column_numbers_table EonNbrs_def col_sums_def fractions4_def)
  have c2: "column_numbers (multiplier_table ''power'' ids4
        (map (map (\<lambda>x. if x = 0 then 0 else if (2::real) = 0 then 1
           else if x < 1 then (1 - x) powr 2 else 0)) fractions4)) ''EonNbrs''
      = [1/100, 1/2, 81/100, 0]"
    by (simp add: column_numbers_table EonNbrs_def col_sums_def fractions4_def p)
  have r: "ranks [1/10, 1, 9/10, 0 :: real] = [2, 4, 3, 1]"
    "ranks [1/100, 1/2, 81/100, 0 :: real] = [2, 3, 4, 1]"
    by (simp_all add: ranks_def rank_in_def)
  have s: "\<not> spearman_is_one [1/10, 1, 9/10, 0] [1/100, 1/2, 81/100, 0]"
    unfolding spearman_is_one_def r by (simp add: pearson_is_one_def centred_def Let_def)
  show ?thesis
    using s by (simp add: i_multipliers_def multiplier_matrix_def sq c1 c2 r)
qed







end
